theory Spec2Isabelle
  imports Main "HOL-Library.Sublist" "HOL-Library.Multiset"
begin

section \<open>Netflix content explorer: loader, filter pipeline and aggregates\<close>

text \<open>
  A shallow embedding of \<^verbatim>\<open>streamlit_app.py\<close>. The script is a straight line of
  calls into pandas. A table is the list of its rows in index order, a missing cell (NaN)
  is \<open>None\<close>, a Python string is the list of its code points.

  What the model takes for granted:
  \<^item> the columns \<^verbatim>\<open>type\<close> and \<^verbatim>\<open>release_year\<close> have no missing cell, the script
    reading them without \<^verbatim>\<open>dropna\<close> or \<^verbatim>\<open>notna\<close>; the other text columns may;
  \<^item> what the script leaves to its libraries and cannot be read off it is a parameter:
    the parser of dates, the decimal digits beyond ASCII, the dtype a column of derived
    numbers is stored with, and the order \<^verbatim>\<open>value_counts\<close> gives to equal counts.
\<close>

subsection \<open>Errors\<close>

datatype error = AttributeError | TypeError | ValueError | KeyError | OverflowError

subsection \<open>Strings\<close>

type_synonym pystr = "nat list"

text \<open>A literal of the script, as code points.\<close>

definition str :: "string \<Rightarrow> pystr" where
  "str s = map of_char s"

text \<open>\<^verbatim>\<open>sub in s\<close> on strings: \<open>sub\<close> occurs in \<open>s\<close> as a contiguous block.\<close>

fun py_in :: "pystr \<Rightarrow> pystr \<Rightarrow> bool" where
  "py_in sub [] = (sub = [])"
| "py_in sub (c # cs) = (prefix sub (c # cs) \<or> py_in sub cs)"

subsection \<open>Rows\<close>

text \<open>
  The columns the script reads. \<open>'s\<close> is the type of a cell of \<^verbatim>\<open>date_added\<close>: text
  as \<^verbatim>\<open>read_csv\<close> delivers it, a date after \<^verbatim>\<open>to_datetime\<close>. \<open>'v\<close> is the type of a
  number in a derived column.
\<close>

record 's csv_row =
  title :: pystr
  type :: pystr
  country :: "pystr option"
  date_added :: "'s option"
  release_year :: int
  rating :: "pystr option"
  duration :: "pystr option"
  listed_in :: "pystr option"

record ('d, 'v) row = "'d csv_row" +
  duration_minutes :: "'v option"
  num_seasons :: "'v option"

subsection \<open>What the libraries decide\<close>

text \<open>
  \<^item> \<open>to_datetime\<close>: \<^verbatim>\<open>pd.to_datetime(..., errors='coerce')\<close> on one cell, a missing
    value where it cannot parse;
  \<^item> \<open>decimal_value\<close>: for a code point beyond ASCII, its value when the Unicode database
    lists it as a decimal digit (\<^verbatim>\<open>\d\<close> and \<^verbatim>\<open>int\<close> both go by it);
  \<^item> \<open>to_column\<close>: the column \<^verbatim>\<open>apply\<close> builds from the values the lambda returned.
    pandas chooses its dtype from all of them (float64 as soon as one is NaN, which rounds
    large numbers and raises OverflowError on very large ones).
\<close>

record ('s, 'd, 'v) library =
  to_datetime :: "'s \<Rightarrow> 'd option"
  decimal_value :: "nat \<Rightarrow> nat option"
  to_column :: "int option list \<Rightarrow> error + 'v option list"

text \<open>A column, whatever its dtype, has a missing cell exactly where the lambda gave NaN.\<close>

definition keeps_missing :: "(int option list \<Rightarrow> error + 'v option list) \<Rightarrow> bool" where
  "keeps_missing tc \<longleftrightarrow>
     (\<forall>xs ys. tc xs = Inr ys \<longrightarrow> map (\<lambda>y. y = None) ys = map (\<lambda>x. x = None) xs)"

subsection \<open>The regular expression and \<^verbatim>\<open>int\<close>\<close>

text \<open>The value of a decimal digit: 0 to 9 in ASCII, the database beyond.\<close>

definition digit_value :: "(nat \<Rightarrow> nat option) \<Rightarrow> nat \<Rightarrow> nat option" where
  "digit_value dv c =
     (if c < 128 then (if 48 \<le> c \<and> c \<le> 57 then Some (c - 48) else None) else dv c)"

definition is_digit :: "(nat \<Rightarrow> nat option) \<Rightarrow> nat \<Rightarrow> bool" where
  "is_digit dv c = (digit_value dv c \<noteq> None)"

text \<open>
  \<^verbatim>\<open>re.search(r'\d+', s)\<close>: the leftmost, longest run of digits, \<open>None\<close> when \<open>s\<close> has
  no digit. The result stands for the match object; \<^verbatim>\<open>.group()\<close> is its text.
\<close>

definition re_search_digits :: "(nat \<Rightarrow> nat option) \<Rightarrow> pystr \<Rightarrow> pystr option" where
  "re_search_digits dv s =
     (case dropWhile (\<lambda>c. \<not> is_digit dv c) s of
        [] \<Rightarrow> None
      | c # cs \<Rightarrow> Some (takeWhile (is_digit dv) (c # cs)))"

text \<open>
  \<^verbatim>\<open>int(ds)\<close> on a string of decimal digits. CPython refuses a decimal string longer than
  \<^verbatim>\<open>sys.get_int_max_str_digits()\<close>, 4300 by default, with a ValueError.
\<close>

definition int_max_str_digits :: nat where
  "int_max_str_digits = 4300"

definition py_int :: "(nat \<Rightarrow> nat option) \<Rightarrow> pystr \<Rightarrow> error + int" where
  "py_int dv ds =
     (if int_max_str_digits < length ds then Inl ValueError
      else Inr (foldl (\<lambda>n c. 10 * n + (case digit_value dv c of None \<Rightarrow> 0 | Some d \<Rightarrow> int d))
                  0 ds))"

subsection \<open>The loader\<close>

text \<open>
  The two lambdas of \<^verbatim>\<open>load_data\<close> differ in the unit token only:
  \<^verbatim>\<open>lambda d: int(re.search(r'\d+', d).group()) if pd.notnull(d) and tok in d else np.nan\<close>.
  When the token is there and no digit is, \<^verbatim>\<open>re.search\<close> returns \<^verbatim>\<open>None\<close> and
  \<^verbatim>\<open>.group()\<close> raises AttributeError.
\<close>

definition derive_number ::
  "(nat \<Rightarrow> nat option) \<Rightarrow> pystr \<Rightarrow> pystr option \<Rightarrow> error + int option" where
  "derive_number dv tok d =
     (case d of
        None \<Rightarrow> Inr None
      | Some s \<Rightarrow>
          if py_in tok s then
            (case re_search_digits dv s of
               None \<Rightarrow> Inl AttributeError
             | Some m \<Rightarrow> (case py_int dv m of Inl e \<Rightarrow> Inl e | Inr n \<Rightarrow> Inr (Some n)))
          else Inr None)"

text \<open>\<^verbatim>\<open>Series.apply(f)\<close>: \<open>f\<close> on every cell, in order; the first exception escapes.\<close>

fun series_apply :: "('a \<Rightarrow> error + 'b) \<Rightarrow> 'a list \<Rightarrow> error + 'b list" where
  "series_apply f [] = Inr []"
| "series_apply f (x # xs) =
     (case f x of
        Inl e \<Rightarrow> Inl e
      | Inr y \<Rightarrow> (case series_apply f xs of Inl e \<Rightarrow> Inl e | Inr ys \<Rightarrow> Inr (y # ys)))"

text \<open>Lines 21 and 22, right-hand side: the lambda on every duration, then the column.\<close>

definition derived_column ::
  "('s, 'd, 'v) library \<Rightarrow> pystr \<Rightarrow> pystr option list \<Rightarrow> error + 'v option list" where
  "derived_column lib tok ds =
     (case series_apply (derive_number (decimal_value lib) tok) ds of
        Inl e \<Rightarrow> Inl e
      | Inr ns \<Rightarrow> to_column lib ns)"

text \<open>One loaded row: the columns of the file, the parsed date, the two derived cells.\<close>

definition with_derived ::
  "('s \<Rightarrow> 'd option) \<Rightarrow> 's csv_row \<Rightarrow> 'v option \<Rightarrow> 'v option \<Rightarrow> ('d, 'v) row" where
  "with_derived parse r m s =
     \<lparr> title = title r, type = type r, country = country r,
       date_added = (case date_added r of None \<Rightarrow> None | Some x \<Rightarrow> parse x),
       release_year = release_year r, rating = rating r, duration = duration r,
       listed_in = listed_in r, duration_minutes = m, num_seasons = s \<rparr>"

text \<open>
  \<^verbatim>\<open>load_data\<close>, from the table \<^verbatim>\<open>read_csv\<close> returned: the minutes column is computed
  for all rows, then the seasons column.
\<close>

definition load_data ::
  "('s, 'd, 'v) library \<Rightarrow> 's csv_row list \<Rightarrow> error + ('d, 'v) row list" where
  "load_data lib csv =
     (case derived_column lib (str ''min'') (map duration csv) of
        Inl e \<Rightarrow> Inl e
      | Inr ms \<Rightarrow>
          (case derived_column lib (str ''Season'') (map duration csv) of
             Inl e \<Rightarrow> Inl e
           | Inr ss \<Rightarrow>
               Inr (map (\<lambda>(r, m, s). with_derived (to_datetime lib) r m s)
                      (zip csv (zip ms ss)))))"

subsection \<open>The sidebar selection\<close>

text \<open>
  What the five widgets return: four \<^verbatim>\<open>multiselect\<close> lists and the pair of the
  \<^verbatim>\<open>slider\<close>.
\<close>

record selection =
  types :: "pystr list"
  countries :: "pystr list"
  genres :: "pystr list"
  ratings :: "pystr list"
  year_range :: "int \<times> int"

subsection \<open>Column operations\<close>

text \<open>\<^verbatim>\<open>df[bs]\<close> with a boolean column \<open>bs\<close>: the rows whose entry is true, in order.\<close>

definition getitem_mask :: "'r list \<Rightarrow> bool list \<Rightarrow> 'r list" where
  "getitem_mask df bs = map fst (filter snd (zip df bs))"

definition isin :: "'a list \<Rightarrow> 'a list \<Rightarrow> bool list" where
  "isin col vals = map (\<lambda>v. v \<in> set vals) col"

definition notna :: "'a option list \<Rightarrow> bool list" where
  "notna col = map (\<lambda>v. v \<noteq> None) col"

text \<open>
  \<^verbatim>\<open>lambda x: any(c in x for c in toks)\<close>. The generator stops at the first token found;
  on a missing cell \<^verbatim>\<open>c in x\<close> raises TypeError (a float is not iterable).
\<close>

fun any_in :: "pystr list \<Rightarrow> pystr option \<Rightarrow> error + bool" where
  "any_in [] x = Inr False"
| "any_in (c # cs) x =
     (case x of
        None \<Rightarrow> Inl TypeError
      | Some s \<Rightarrow> if py_in c s then Inr True else any_in cs x)"

text \<open>\<^verbatim>\<open>unique()\<close>: the distinct values in order of first appearance.\<close>

fun unique :: "'a list \<Rightarrow> 'a list" where
  "unique [] = []"
| "unique (x # xs) = x # unique (filter (\<lambda>y. y \<noteq> x) xs)"

subsection \<open>The filters on a table\<close>

text \<open>
  The rows each selection of lines 36 to 45 keeps, given a table that has its columns.
  Line 36: \<^verbatim>\<open>df[df['type'].isin(types)]\<close>.
\<close>

definition type_filter :: "pystr list \<Rightarrow> ('d, 'v) row list \<Rightarrow> ('d, 'v) row list" where
  "type_filter ts df = getitem_mask df (isin (map type df) ts)"

text \<open>Lines 38 and 41: \<^verbatim>\<open>filtered_df[filtered_df[col].notna()]\<close>.\<close>

definition select_notna :: "('r \<Rightarrow> pystr option) \<Rightarrow> 'r list \<Rightarrow> 'r list" where
  "select_notna col df = getitem_mask df (notna (map col df))"

text \<open>
  Lines 39 and 42: the rows of \<^verbatim>\<open>filtered_df[filtered_df[col].apply(lambda x: any(...))]\<close>.
\<close>

definition select_any_in ::
  "('r \<Rightarrow> pystr option) \<Rightarrow> pystr list \<Rightarrow> 'r list \<Rightarrow> error + 'r list" where
  "select_any_in col toks df =
     (case series_apply (any_in toks) (map col df) of
        Inl e \<Rightarrow> Inl e
      | Inr bs \<Rightarrow> Inr (getitem_mask df bs))"

text \<open>Lines 37 to 39, and 40 to 42: a list is true when it is not empty.\<close>

definition country_filter ::
  "pystr list \<Rightarrow> ('d, 'v) row list \<Rightarrow> error + ('d, 'v) row list" where
  "country_filter cs df =
     (if cs \<noteq> [] then select_any_in country cs (select_notna country df) else Inr df)"

definition genre_filter ::
  "pystr list \<Rightarrow> ('d, 'v) row list \<Rightarrow> error + ('d, 'v) row list" where
  "genre_filter gs df =
     (if gs \<noteq> [] then select_any_in listed_in gs (select_notna listed_in df) else Inr df)"

text \<open>
  Lines 43 and 44. The selected ratings are strings; a missing rating is in no such list.
\<close>

definition select_rating :: "pystr list \<Rightarrow> ('d, 'v) row list \<Rightarrow> ('d, 'v) row list" where
  "select_rating rs df = getitem_mask df (isin (map rating df) (map Some rs))"

definition rating_filter :: "pystr list \<Rightarrow> ('d, 'v) row list \<Rightarrow> ('d, 'v) row list" where
  "rating_filter rs df = (if rs \<noteq> [] then select_rating rs df else df)"

text \<open>Line 45.\<close>

definition year_filter :: "int \<times> int \<Rightarrow> ('d, 'v) row list \<Rightarrow> ('d, 'v) row list" where
  "year_filter yr df =
     getitem_mask df (map (\<lambda>y. fst yr \<le> y \<and> y \<le> snd yr) (map release_year df))"

subsection \<open>Frames and the statements of lines 36 to 45\<close>

text \<open>
  A DataFrame either has its columns, and then some rows, or has lost them. It loses them
  in lines 39 and 42 when it has no row: \<^verbatim>\<open>apply\<close> on a column without cells returns a
  column that is not boolean, and indexing with it selects columns, none, instead of rows.
  Reading a column of a frame without columns raises KeyError.
\<close>

datatype 'r frame = Table "'r list" | NoColumns

fun rows_of :: "'r frame \<Rightarrow> 'r list" where
  "rows_of (Table t) = t"
| "rows_of NoColumns = []"

definition with_columns :: "('r list \<Rightarrow> error + 'a) \<Rightarrow> 'r frame \<Rightarrow> error + 'a" where
  "with_columns f fr = (case fr of NoColumns \<Rightarrow> Inl KeyError | Table t \<Rightarrow> f t)"

text \<open>The right-hand sides of lines 36, 38 and 41, 39 and 42, 44, 45.\<close>

definition stmt_type :: "pystr list \<Rightarrow> ('d, 'v) row frame \<Rightarrow> error + ('d, 'v) row frame" where
  "stmt_type ts = with_columns (\<lambda>t. Inr (Table (type_filter ts t)))"

definition stmt_notna :: "('r \<Rightarrow> pystr option) \<Rightarrow> 'r frame \<Rightarrow> error + 'r frame" where
  "stmt_notna col = with_columns (\<lambda>t. Inr (Table (select_notna col t)))"

definition stmt_any_in ::
  "('r \<Rightarrow> pystr option) \<Rightarrow> pystr list \<Rightarrow> 'r frame \<Rightarrow> error + 'r frame" where
  "stmt_any_in col toks =
     with_columns (\<lambda>t.
       case select_any_in col toks t of
         Inl e \<Rightarrow> Inl e
       | Inr out \<Rightarrow> Inr (if t = [] then NoColumns else Table out))"

definition stmt_rating :: "pystr list \<Rightarrow> ('d, 'v) row frame \<Rightarrow> error + ('d, 'v) row frame" where
  "stmt_rating rs = with_columns (\<lambda>t. Inr (Table (select_rating rs t)))"

definition stmt_year :: "int \<times> int \<Rightarrow> ('d, 'v) row frame \<Rightarrow> error + ('d, 'v) row frame" where
  "stmt_year yr = with_columns (\<lambda>t. Inr (Table (year_filter yr t)))"

definition and_then :: "error + 'a \<Rightarrow> ('a \<Rightarrow> error + 'b) \<Rightarrow> error + 'b" where
  "and_then r f = (case r of Inl e \<Rightarrow> Inl e | Inr x \<Rightarrow> f x)"

text \<open>Lines 36 to 45 as a function of the frame \<^verbatim>\<open>df\<close>: the frame \<^verbatim>\<open>filtered_df\<close> ends as.\<close>

definition filtered_df :: "selection \<Rightarrow> ('d, 'v) row frame \<Rightarrow> error + ('d, 'v) row frame" where
  "filtered_df sel df =
     and_then (stmt_type (types sel) df) (\<lambda>f1.
     and_then
       (if countries sel \<noteq> [] then
          and_then (stmt_notna country f1) (stmt_any_in country (countries sel))
        else Inr f1) (\<lambda>f2.
     and_then
       (if genres sel \<noteq> [] then
          and_then (stmt_notna listed_in f2) (stmt_any_in listed_in (genres sel))
        else Inr f2) (\<lambda>f3.
     and_then
       (if ratings sel \<noteq> [] then stmt_rating (ratings sel) f3 else Inr f3) (\<lambda>f4.
     stmt_year (year_range sel) f4))))"

subsection \<open>The same statements over a store\<close>

text \<open>
  A DataFrame is an object: \<open>frames\<close> maps an object identity to the frame it holds,
  \<open>next_id\<close> is the first identity not yet used, \<open>vars\<close> gives the identity each variable
  of the script is bound to. Indexing builds a new object; an assignment binds the
  variable on its left. A statement that raises leaves the store as it found it, and the
  script stops there.
\<close>

record 'r state =
  frames :: "nat \<Rightarrow> 'r frame"
  next_id :: nat
  vars :: "string \<Rightarrow> nat"




subsection \<open>Aggregates\<close>

text \<open>Line 49: \<^verbatim>\<open>filtered_df.shape[0]\<close>.\<close>

definition number_of_titles :: "'r list \<Rightarrow> nat" where
  "number_of_titles df = length df"

text \<open>
  The distinct values of a column with the number of cells holding each, in order of first
  appearance: the heights \<^verbatim>\<open>sns.countplot\<close> draws, and the counts of
  \<^verbatim>\<open>value_counts\<close> before they are sorted.
\<close>

definition category_counts :: "'a list \<Rightarrow> ('a \<times> nat) list" where
  "category_counts xs = map (\<lambda>k. (k, count_list xs k)) (unique xs)"

text \<open>Line 55: \<^verbatim>\<open>sns.countplot(data=filtered_df, x='type')\<close>.\<close>

definition countplot_type :: "('d, 'v) row list \<Rightarrow> (pystr \<times> nat) list" where
  "countplot_type df = category_counts (map type df)"

fun dropna :: "'a option list \<Rightarrow> 'a list" where
  "dropna [] = []"
| "dropna (None # xs) = dropna xs"
| "dropna (Some x # xs) = x # dropna xs"

text \<open>
  \<^verbatim>\<open>s.split(', ')\<close>, with the text collected since the last separator in \<open>acc\<close>: a comma
  (44) followed by a space (32) ends a token, scanning from the left.
\<close>

fun split_comma_space :: "pystr \<Rightarrow> pystr \<Rightarrow> pystr list" where
  "split_comma_space acc [] = [acc]"
| "split_comma_space acc [c] = [acc @ [c]]"
| "split_comma_space acc (c # d # cs) =
     (if c = 44 \<and> d = 32 then acc # split_comma_space [] cs
      else split_comma_space (acc @ [c]) (d # cs))"

text \<open>\<^verbatim>\<open>filtered_df['country'].dropna().str.split(', ').explode()\<close>.\<close>

definition country_tokens :: "('d, 'v) row list \<Rightarrow> pystr list" where
  "country_tokens df = concat (map (split_comma_space []) (dropna (map country df)))"

text \<open>
  \<^verbatim>\<open>value_counts()\<close> counts the distinct values and sorts the counts with
  \<^verbatim>\<open>sort_values(ascending=False)\<close>. The script names no sort kind, so the sort is a
  parameter: any function that permutes its input into descending order of count, see
  \<open>sorts_descending\<close>.
\<close>

definition value_counts ::
  "(('a \<times> nat) list \<Rightarrow> ('a \<times> nat) list) \<Rightarrow> 'a list \<Rightarrow> ('a \<times> nat) list" where
  "value_counts sort_values xs = sort_values (category_counts xs)"

definition sorts_descending :: "(('a \<times> nat) list \<Rightarrow> ('a \<times> nat) list) \<Rightarrow> bool" where
  "sorts_descending sort_values \<longleftrightarrow>
     (\<forall>xs. mset (sort_values xs) = mset xs
         \<and> sorted_wrt (\<lambda>a b. snd b \<le> snd a) (sort_values xs))"

text \<open>Line 71: \<^verbatim>\<open>....value_counts().head(10)\<close>.\<close>

definition top_countries ::
  "((pystr \<times> nat) list \<Rightarrow> (pystr \<times> nat) list) \<Rightarrow> ('d, 'v) row list \<Rightarrow> (pystr \<times> nat) list" where
  "top_countries sort_values df = take 10 (value_counts sort_values (country_tokens df))"

text \<open>A descending sort that keeps rows of equal count in their order.\<close>

definition sort_desc_stable :: "('a \<times> nat) list \<Rightarrow> ('a \<times> nat) list" where
  "sort_desc_stable xs = sort_key (\<lambda>p. - int (snd p)) xs"

subsection \<open>The sort the library uses when none is named\<close>

text \<open>
  \<^verbatim>\<open>sort_values\<close> sorts with kind \<^verbatim>\<open>quicksort\<close> unless told otherwise, which is
  numpy's \<^verbatim>\<open>argsort\<close> on the counts. This is its generic quicksort: on an array \<open>ts\<close>
  of positions into the keys \<open>v\<close>, with the median of three as pivot, segments of at most
  17 positions left to an insertion sort, and equal keys exchanged by the partition. It is
  not a stable sort, and numpy promises none for this kind.
\<close>

definition swap :: "nat list \<Rightarrow> nat \<Rightarrow> nat \<Rightarrow> nat list" where
  "swap ts i j = ts[i := ts ! j, j := ts ! i]"

text \<open>\<^verbatim>\<open>do ++pi; while (v[*pi] < vp)\<close> and \<^verbatim>\<open>do --pj; while (vp < v[*pj])\<close>.\<close>

definition scan_up :: "int list \<Rightarrow> int \<Rightarrow> nat list \<Rightarrow> nat \<Rightarrow> nat" where
  "scan_up v vp ts pi = Suc pi + length (takeWhile (\<lambda>x. v ! x < vp) (drop (Suc pi) ts))"

definition scan_down :: "int list \<Rightarrow> int \<Rightarrow> nat list \<Rightarrow> nat \<Rightarrow> nat" where
  "scan_down v vp ts pj = pj - 1 - length (takeWhile (\<lambda>x. vp < v ! x) (rev (take pj ts)))"

function partition_loop ::
  "int list \<Rightarrow> int \<Rightarrow> nat list \<Rightarrow> nat \<Rightarrow> nat \<Rightarrow> nat list \<times> nat" where
  "partition_loop v vp ts pi pj =
     (let pi' = scan_up v vp ts pi; pj' = scan_down v vp ts pj
      in if pj' \<le> pi' then (ts, pi') else partition_loop v vp (swap ts pi' pj') pi' pj')"
  by pat_completeness auto
termination
  by (relation "measure (\<lambda>(v, vp, ts, pi, pj). pj - pi)")
     (auto simp: scan_up_def scan_down_def)

text \<open>One partition of the segment from \<open>pl\<close> to \<open>pr\<close>: the new array, and where the pivot ends.\<close>

definition partition_segment :: "int list \<Rightarrow> nat list \<Rightarrow> nat \<Rightarrow> nat \<Rightarrow> nat list \<times> nat" where
  "partition_segment v ts pl pr =
     (let pm = pl + (pr - pl) div 2;
          t1 = (if v ! (ts ! pm) < v ! (ts ! pl) then swap ts pm pl else ts);
          t2 = (if v ! (t1 ! pr) < v ! (t1 ! pm) then swap t1 pr pm else t1);
          t3 = (if v ! (t2 ! pm) < v ! (t2 ! pl) then swap t2 pm pl else t2);
          vp = v ! (t3 ! pm);
          t4 = swap t3 pm (pr - 1);
          (t5, pi) = partition_loop v vp t4 pl (pr - 1)
      in (swap t5 pi (pr - 1), pi))"

text \<open>
  The insertion sort of a segment: each position moves left past the positions of
  strictly greater key.
\<close>

definition insert_position :: "int list \<Rightarrow> nat list \<Rightarrow> nat \<Rightarrow> nat list" where
  "insert_position v done x =
     (let moved = length (takeWhile (\<lambda>y. v ! x < v ! y) (rev done))
      in take (length done - moved) done @ [x] @ drop (length done - moved) done)"

definition insertion_segment :: "int list \<Rightarrow> nat list \<Rightarrow> nat \<Rightarrow> nat \<Rightarrow> nat list" where
  "insertion_segment v ts pl pr =
     take pl ts @ foldl (insert_position v) [] (take (Suc pr - pl) (drop pl ts))
       @ drop (Suc pr) ts"

text \<open>
  The recursion, \<open>d\<close> levels deep at most. Past its depth limit numpy sorts a segment by
  heapsort; that is outside this model, and the result is \<open>None\<close>.
\<close>

fun aquicksort :: "nat \<Rightarrow> int list \<Rightarrow> nat list \<Rightarrow> nat \<Rightarrow> nat \<Rightarrow> nat list option" where
  "aquicksort d v ts pl pr =
     (if pl + 16 < pr then
        (case d of
           0 \<Rightarrow> None
         | Suc d' \<Rightarrow>
             (case partition_segment v ts pl pr of
                (ts', pi) \<Rightarrow>
                  (case aquicksort d' v ts' pl (pi - 1) of
                     None \<Rightarrow> None
                   | Some ts'' \<Rightarrow> aquicksort d' v ts'' (Suc pi) pr)))
      else Some (insertion_segment v ts pl pr))"

fun msb :: "nat \<Rightarrow> nat" where
  "msb n = (if n < 2 then 0 else Suc (msb (n div 2)))"

definition argsort :: "int list \<Rightarrow> nat list option" where
  "argsort v =
     (if v = [] then Some []
      else aquicksort (Suc (2 * msb (length v))) v [0..<length v] 0 (length v - 1))"

text \<open>
  \<^verbatim>\<open>sort_values(ascending=False)\<close>: pandas reverses the counts, sorts them ascending
  and reverses the outcome.
\<close>

definition nargsort_descending :: "int list \<Rightarrow> nat list option" where
  "nargsort_descending counts =
     (case argsort (rev counts) of
        None \<Rightarrow> None
      | Some ix \<Rightarrow> Some (rev (map (\<lambda>i. length counts - 1 - i) ix)))"

text \<open>The counts in the order of that permutation; as they came where the model ends.\<close>

definition sort_values_quicksort :: "('a \<times> nat) list \<Rightarrow> ('a \<times> nat) list" where
  "sort_values_quicksort xs =
     (case nargsort_descending (map (\<lambda>p. int (snd p)) xs) of
        None \<Rightarrow> xs
      | Some ix \<Rightarrow> map (\<lambda>i. xs ! i) ix)"

subsection \<open>Example data\<close>

text \<open>
  A library for the examples: no date parses, the Arabic-Indic digits (U+0660 to U+0669)
  are the decimal digits beyond ASCII, and a column holds the numbers as parsed, which
  every dtype does for the small numbers of the examples.
\<close>

definition example_library :: "(pystr, unit, int) library" where
  "example_library =
     \<lparr> to_datetime = (\<lambda>s. None),
       decimal_value = (\<lambda>c. if 1632 \<le> c \<and> c \<le> 1641 then Some (c - 1632) else None),
       to_column = Inr \<rparr>"

text \<open>A row of the file with only its duration filled in.\<close>

definition csv_with_duration :: "pystr option \<Rightarrow> pystr csv_row" where
  "csv_with_duration d =
     \<lparr> title = str ''t'', type = str ''Movie'', country = None, date_added = None,
       release_year = 2015, rating = None, duration = d, listed_in = None \<rparr>"

text \<open>A loaded movie, and a loaded show, with the given country, year and rating.\<close>

definition movie :: "pystr option \<Rightarrow> int \<Rightarrow> pystr option \<Rightarrow> (unit, int) row" where
  "movie c y r =
     \<lparr> title = str ''m'', type = str ''Movie'', country = c, date_added = None,
       release_year = y, rating = r, duration = Some (str ''90 min''), listed_in = None,
       duration_minutes = Some 90, num_seasons = None \<rparr>"

definition tv_show :: "pystr option \<Rightarrow> int \<Rightarrow> pystr option \<Rightarrow> (unit, int) row" where
  "tv_show c y r =
     \<lparr> title = str ''s'', type = str ''TV Show'', country = c, date_added = None,
       release_year = y, rating = r, duration = Some (str ''2 Seasons''), listed_in = None,
       duration_minutes = None, num_seasons = Some 2 \<rparr>"

text \<open>The table of the scenario: a movie of two countries and a show of one.\<close>

definition scenario_table :: "(unit, int) row list" where
  "scenario_table =
     [movie (Some (str ''United States, India'')) 2015 (Some (str ''PG-13'')),
      tv_show (Some (str ''India'')) 2019 (Some (str ''TV-MA''))]"

text \<open>India chosen, with the years of the two titles, of the show only, and of neither.\<close>

definition india_selection :: "int \<times> int \<Rightarrow> selection" where
  "india_selection yr =
     \<lparr> types = [str ''Movie'', str ''TV Show''], countries = [str ''India''], genres = [],
       ratings = [], year_range = yr \<rparr>"


text \<open>Twenty movies, each of one country of its own.\<close>

definition twenty_countries :: "pystr list" where
  "twenty_countries =
     map str [''India'', ''Japan'', ''France'', ''Spain'', ''Italy'', ''Egypt'', ''Chile'',
       ''Peru'', ''Ghana'', ''Kenya'', ''Nepal'', ''Qatar'', ''Cuba'', ''Iran'', ''Iraq'',
       ''Mali'', ''Oman'', ''Togo'', ''Fiji'', ''Laos'']"

definition twenty_movies :: "(unit, int) row list" where
  "twenty_movies = map (\<lambda>c. movie (Some c) 2015 None) twenty_countries"

subsection \<open>Predicates used in the proofs\<close>

text \<open>A cell is present and holds one of the tokens.\<close>

definition token_match :: "pystr list \<Rightarrow> pystr option \<Rightarrow> bool" where
  "token_match toks x =
     (case x of None \<Rightarrow> False | Some s \<Rightarrow> list_ex (\<lambda>c. py_in c s) toks)"

text \<open>The rows lines 36 to 45 keep.\<close>

definition keeps :: "selection \<Rightarrow> ('d, 'v) row \<Rightarrow> bool" where
  "keeps sel r \<longleftrightarrow>
     type r \<in> set (types sel)
   \<and> (countries sel = [] \<or> token_match (countries sel) (country r))
   \<and> (genres sel = [] \<or> token_match (genres sel) (listed_in r))
   \<and> (ratings sel = [] \<or> rating r \<in> Some ` set (ratings sel))
   \<and> fst (year_range sel) \<le> release_year r \<and> release_year r \<le> snd (year_range sel)"

text \<open>
  A token filter runs on a frame without rows: countries are chosen and no row of a chosen
  type has a country, or genres are chosen and no row left by the country filter has a
  genre.
\<close>

definition loses_columns :: "selection \<Rightarrow> ('d, 'v) row list \<Rightarrow> bool" where
  "loses_columns sel df \<longleftrightarrow>
     (countries sel \<noteq> [] \<and> select_notna country (type_filter (types sel) df) = [])
   \<or> (genres sel \<noteq> []
      \<and> select_notna listed_in
          (filter (\<lambda>r. countries sel = [] \<or> token_match (countries sel) (country r))
             (type_filter (types sel) df)) = [])"

text \<open>
  \<open>s'\<close> is \<open>s\<close> after statements that build objects and leave \<^verbatim>\<open>df\<close> bound as it was;
  in \<open>s'\<close> the variable \<^verbatim>\<open>filtered_df\<close> is bound to an object built since \<open>s\<close>, which
  holds \<open>fr\<close>; the pair \<open>p\<close> is the outcome \<open>r\<close> reached from \<open>s\<close> in this way.
\<close>

definition grown :: "'r state \<Rightarrow> 'r state \<Rightarrow> bool" where
  "grown s s' \<longleftrightarrow>
     next_id s \<le> next_id s' \<and> vars s' ''df'' = vars s ''df''
   \<and> (\<forall>a<next_id s. frames s' a = frames s a)"



section \<open>Properties\<close>

subsection \<open>The loader\<close>

lemma py_in_iff: "py_in sub s \<longleftrightarrow> (\<exists>ps ss. s = ps @ sub @ ss)"
proof (induction s)
  case Nil
  then show ?case by auto
next
  case (Cons c cs)
  show ?case
  proof
    assume "py_in sub (c # cs)"
    then consider "prefix sub (c # cs)" | "py_in sub cs" by auto
    then show "\<exists>ps ss. c # cs = ps @ sub @ ss"
    proof cases
      case 1
      then obtain ss where "c # cs = sub @ ss" by (auto simp: prefix_def)
      then have "c # cs = [] @ sub @ ss" by simp
      then show ?thesis by blast
    next
      case 2
      with Cons.IH obtain ps ss where "cs = ps @ sub @ ss" by blast
      then have "c # cs = (c # ps) @ sub @ ss" by simp
      then show ?thesis by blast
    qed
  next
    assume "\<exists>ps ss. c # cs = ps @ sub @ ss"
    then obtain ps ss where e: "c # cs = ps @ sub @ ss" by blast
    show "py_in sub (c # cs)"
    proof (cases ps)
      case Nil
      with e have "prefix sub (c # cs)" by (simp add: prefix_def)
      then show ?thesis by simp
    next
      case (Cons p ps')
      with e have "cs = ps' @ sub @ ss" by simp
      with Cons.IH have "py_in sub cs" by blast
      then show ?thesis by simp
    qed
  qed
qed

lemma series_apply_Inr:
  "series_apply f xs = Inr ys \<Longrightarrow> list_all2 (\<lambda>x y. f x = Inr y) xs ys"
  by (induction xs arbitrary: ys) (auto split: sum.splits)

lemma derive_number_None_iff:
  "derive_number dv tok d = Inr v \<Longrightarrow> (v \<noteq> None) = (\<exists>s. d = Some s \<and> py_in tok s)"
  by (auto simp: derive_number_def split: option.splits if_splits sum.splits)

text \<open>When a lambda of the loader raises, and the cells on which it gives a missing value.\<close>

lemma derive_number_raises_iff:
  "(\<exists>e. derive_number dv tok d = Inl e) \<longleftrightarrow>
     (\<exists>s. d = Some s \<and> py_in tok s
        \<and> (re_search_digits dv s = None
           \<or> (\<exists>m. re_search_digits dv s = Some m \<and> int_max_str_digits < length m)))"
  by (auto simp: derive_number_def py_int_def split: option.splits if_splits sum.splits)

lemma derive_number_missing:
  "derive_number dv tok None = Inr None"
  "\<not> py_in tok s \<Longrightarrow> derive_number dv tok (Some s) = Inr None"
  by (simp_all add: derive_number_def)


text \<open>A digit beyond ASCII is a digit: three minutes, and ninety-three, in mixed digits.\<close>

lemma derive_number_arabic_indic:
  "derive_number (decimal_value example_library) (str ''min'') (Some (1635 # str '' min'')) =
     Inr (Some 3)"
  "derive_number (decimal_value example_library) (str ''min'') (Some (57 # 1635 # str '' min'')) =
     Inr (Some 93)"
  by (simp_all add: derive_number_def example_library_def str_def re_search_digits_def
      is_digit_def digit_value_def py_int_def int_max_str_digits_def)


lemma series_apply_nth:
  assumes "series_apply f ds = Inr ns"
  shows "length ns = length ds" and "\<And>i. i < length ds \<Longrightarrow> f (ds ! i) = Inr (ns ! i)"
  using series_apply_Inr [OF assms] by (simp_all add: list_all2_conv_all_nth)

lemma keeps_missing_nth:
  assumes "keeps_missing tc" and "tc ns = Inr col"
  shows "length col = length ns" and "\<And>i. i < length ns \<Longrightarrow> (col ! i = None) = (ns ! i = None)"
proof -
  from assms have m: "map (\<lambda>y. y = None) col = map (\<lambda>x. x = None) ns"
    unfolding keeps_missing_def by blast
  have "length col = length (map (\<lambda>y. y = None) col)" by simp
  also have "\<dots> = length (map (\<lambda>x. x = None) ns)" by (simp only: m)
  finally show lc: "length col = length ns" by simp
  fix i assume i: "i < length ns"
  with lc have "(col ! i = None) = (map (\<lambda>y. y = None) col ! i)" by simp
  also have "\<dots> = (map (\<lambda>x. x = None) ns ! i)" by (simp only: m)
  also from i have "\<dots> = (ns ! i = None)" by simp
  finally show "(col ! i = None) = (ns ! i = None)" .
qed

text \<open>
  In a column the loader built, each cell is missing exactly when the lambda gave NaN on
  the duration of its row.
\<close>

lemma derived_column_cells:
  assumes "keeps_missing (to_column lib)" and "derived_column lib tok ds = Inr col"
  shows "length col = length ds"
    and "\<And>i. i < length ds \<Longrightarrow>
           \<exists>v. derive_number (decimal_value lib) tok (ds ! i) = Inr v
              \<and> (col ! i = None) = (v = None)"
proof -
  from assms(2) obtain ns where
    ns: "series_apply (derive_number (decimal_value lib) tok) ds = Inr ns" and
    tc: "to_column lib ns = Inr col"
    by (auto simp: derived_column_def split: sum.splits)
  note a = series_apply_nth [OF ns] and k = keeps_missing_nth [OF assms(1) tc]
  from a(1) k(1) show "length col = length ds" by simp
  fix i assume i: "i < length ds"
  from a(2) [OF i] k(2) [of i] i a(1)
  show "\<exists>v. derive_number (decimal_value lib) tok (ds ! i) = Inr v
              \<and> (col ! i = None) = (v = None)" by simp
qed



lemma load_data_rows:
  assumes "keeps_missing (to_column lib)" and "load_data lib csv = Inr tbl" and "r \<in> set tbl"
  shows "\<exists>m s. derive_number (decimal_value lib) (str ''min'') (duration r) = Inr m
           \<and> (duration_minutes r = None) = (m = None)
           \<and> derive_number (decimal_value lib) (str ''Season'') (duration r) = Inr s
           \<and> (num_seasons r = None) = (s = None)"
proof -
  from assms(2) obtain ms ss where
    ms: "derived_column lib (str ''min'') (map duration csv) = Inr ms" and
    ss: "derived_column lib (str ''Season'') (map duration csv) = Inr ss" and
    tbl: "tbl = map (\<lambda>(r, m, s). with_derived (to_datetime lib) r m s) (zip csv (zip ms ss))"
    by (auto simp: load_data_def split: sum.splits)
  note cm = derived_column_cells [OF assms(1) ms] and cs = derived_column_cells [OF assms(1) ss]
  from assms(3) tbl cm(1) cs(1) obtain i where
    i: "i < length csv" and
    r: "r = with_derived (to_datetime lib) (csv ! i) (ms ! i) (ss ! i)"
    by (auto simp: in_set_conv_nth)
  from r have f: "duration r = duration (csv ! i)" "duration_minutes r = ms ! i"
    "num_seasons r = ss ! i"
    by (simp_all add: with_derived_def)
  from cm(2) [of i] cs(2) [of i] i f show ?thesis by auto
qed


lemma keeps_missing_example: "keeps_missing (to_column example_library)"
  by (simp add: keeps_missing_def example_library_def)


subsection \<open>The filter statements\<close>


lemma getitem_mask_map: "getitem_mask df (map p df) = filter p df"
  by (induction df) (auto simp: getitem_mask_def)

lemma type_filter_eq: "type_filter ts df = filter (\<lambda>r. type r \<in> set ts) df"
  using getitem_mask_map [of df "\<lambda>r. type r \<in> set ts"]
  by (simp add: type_filter_def isin_def comp_def)

lemma select_notna_eq: "select_notna col df = filter (\<lambda>r. col r \<noteq> None) df"
  using getitem_mask_map [of df "\<lambda>r. col r \<noteq> None"]
  by (simp add: select_notna_def notna_def comp_def)

lemma any_in_Some: "any_in toks (Some s) = Inr (list_ex (\<lambda>c. py_in c s) toks)"
  by (induction toks) auto

lemma series_apply_total:
  "(\<And>x. x \<in> set xs \<Longrightarrow> f x = Inr (g x)) \<Longrightarrow> series_apply f xs = Inr (map g xs)"
  by (induction xs) auto

lemma select_any_in_eq:
  assumes "\<And>r. r \<in> set df \<Longrightarrow> col r \<noteq> None"
  shows "select_any_in col toks df = Inr (filter (\<lambda>r. token_match toks (col r)) df)"
proof -
  have "series_apply (any_in toks) (map col df) = Inr (map (token_match toks) (map col df))"
  proof (rule series_apply_total)
    fix x assume "x \<in> set (map col df)"
    with assms obtain s where "x = Some s" by auto
    then show "any_in toks x = Inr (token_match toks x)"
      by (simp add: token_match_def any_in_Some)
  qed
  then show ?thesis
    using getitem_mask_map [of df "\<lambda>r. token_match toks (col r)"]
    by (simp add: select_any_in_def comp_def)
qed

lemma token_filter_eq:
  "select_any_in col toks (select_notna col df) = Inr (filter (\<lambda>r. token_match toks (col r)) df)"
proof -
  have "select_any_in col toks (select_notna col df) =
      Inr (filter (\<lambda>r. token_match toks (col r)) (select_notna col df))"
    by (rule select_any_in_eq) (simp add: select_notna_eq)
  also have "filter (\<lambda>r. token_match toks (col r)) (select_notna col df) =
      filter (\<lambda>r. token_match toks (col r)) df"
    by (auto simp: select_notna_eq token_match_def intro!: filter_cong split: option.splits)
  finally show ?thesis .
qed

lemma country_filter_eq:
  "country_filter cs df = Inr (filter (\<lambda>r. cs = [] \<or> token_match cs (country r)) df)"
  by (simp add: country_filter_def token_filter_eq)

lemma genre_filter_eq:
  "genre_filter gs df = Inr (filter (\<lambda>r. gs = [] \<or> token_match gs (listed_in r)) df)"
  by (simp add: genre_filter_def token_filter_eq)

lemma rating_filter_eq:
  "rating_filter rs df = filter (\<lambda>r. rs = [] \<or> rating r \<in> Some ` set rs) df"
  using getitem_mask_map [of df "\<lambda>r. rating r \<in> Some ` set rs"]
  by (simp add: rating_filter_def select_rating_def isin_def comp_def)

lemma year_filter_eq:
  "year_filter yr df = filter (\<lambda>r. fst yr \<le> release_year r \<and> release_year r \<le> snd yr) df"
  using getitem_mask_map [of df "\<lambda>r. fst yr \<le> release_year r \<and> release_year r \<le> snd yr"]
  by (simp add: year_filter_def comp_def)

lemma and_then_simps:
  "and_then (Inr x) f = f x"
  "and_then (Inl e) f = Inl e"
  by (simp_all add: and_then_def)

text \<open>Each statement on a frame with columns, and on one without.\<close>

lemma stmt_Table:
  "stmt_type ts (Table t) = Inr (Table (type_filter ts t))"
  "stmt_notna col (Table u) = Inr (Table (select_notna col u))"
  "stmt_rating rs (Table t) = Inr (Table (select_rating rs t))"
  "stmt_year yr (Table t) = Inr (Table (year_filter yr t))"
  by (simp_all add: stmt_type_def stmt_notna_def stmt_rating_def stmt_year_def with_columns_def)

lemma stmt_NoColumns:
  "stmt_type ts NoColumns = Inl KeyError"
  "stmt_notna col NoColumns = Inl KeyError"
  "stmt_any_in col toks NoColumns = Inl KeyError"
  "stmt_rating rs NoColumns = Inl KeyError"
  "stmt_year yr NoColumns = Inl KeyError"
  by (simp_all add: stmt_type_def stmt_notna_def stmt_any_in_def stmt_rating_def stmt_year_def
      with_columns_def)

text \<open>
  The two statements of a token filter: the columns are lost when no row has the cell.
\<close>

lemma token_statements:
  "stmt_any_in col toks (Table []) = Inr NoColumns"
  "select_notna col t \<noteq> [] \<Longrightarrow>
     stmt_any_in col toks (Table (select_notna col t)) =
       Inr (Table (filter (\<lambda>r. token_match toks (col r)) t))"
  using token_filter_eq [of col toks t]
  by (simp_all add: stmt_any_in_def with_columns_def select_any_in_def)

text \<open>Lines 40 to 45, from the frame lines 36 to 39 leave.\<close>

lemma after_country_NoColumns:
  "and_then
     (if gs \<noteq> [] then and_then (stmt_notna listed_in NoColumns) (stmt_any_in listed_in gs)
      else Inr NoColumns) (\<lambda>f3.
   and_then (if rs \<noteq> [] then stmt_rating rs f3 else Inr f3) (\<lambda>f4. stmt_year yr f4)) =
   Inl KeyError"
  by (simp add: stmt_NoColumns and_then_simps)

lemma after_country_Table:
  "and_then
     (if gs \<noteq> [] then and_then (stmt_notna listed_in (Table t)) (stmt_any_in listed_in gs)
      else Inr (Table t)) (\<lambda>f3.
   and_then (if rs \<noteq> [] then stmt_rating rs f3 else Inr f3) (\<lambda>f4. stmt_year yr f4)) =
   (if gs \<noteq> [] \<and> select_notna listed_in t = [] then Inl KeyError
    else Inr (Table (year_filter yr (rating_filter rs
           (filter (\<lambda>r. gs = [] \<or> token_match gs (listed_in r)) t)))))"
  by (simp add: token_statements stmt_Table stmt_NoColumns and_then_simps rating_filter_def)

lemma filter_chain_keeps:
  "year_filter (year_range sel) (rating_filter (ratings sel)
     (filter (\<lambda>r. genres sel = [] \<or> token_match (genres sel) (listed_in r))
       (filter (\<lambda>r. countries sel = [] \<or> token_match (countries sel) (country r))
         (type_filter (types sel) df)))) =
   filter (keeps sel) df"
  unfolding year_filter_eq rating_filter_eq type_filter_eq filter_filter keeps_def
  by (auto intro!: filter_cong)

text \<open>What lines 36 to 45 end with: the rows kept, or KeyError where the columns were lost.\<close>

lemma filtered_df_outcome:
  "filtered_df sel (Table df) =
     (if loses_columns sel df then Inl KeyError else Inr (Table (filter (keeps sel) df)))"
proof -
  let ?t1 = "type_filter (types sel) df"
  let ?t2 = "filter (\<lambda>r. countries sel = [] \<or> token_match (countries sel) (country r)) ?t1"
  let ?lost = "countries sel \<noteq> [] \<and> select_notna country ?t1 = []"
  have b: "(if countries sel \<noteq> [] then
          and_then (stmt_notna country (Table ?t1)) (stmt_any_in country (countries sel))
        else Inr (Table ?t1)) = Inr (if ?lost then NoColumns else Table ?t2)"
    by (simp add: stmt_Table and_then_simps token_statements)
  have "filtered_df sel (Table df) =
      (if ?lost then Inl KeyError
       else if genres sel \<noteq> [] \<and> select_notna listed_in ?t2 = [] then Inl KeyError
       else Inr (Table (filter (keeps sel) df)))"
  proof (cases ?lost)
    case True
    then have b': "(if countries sel \<noteq> [] then
          and_then (stmt_notna country (Table ?t1)) (stmt_any_in country (countries sel))
        else Inr (Table ?t1)) = Inr NoColumns"
      using b by simp
    have "filtered_df sel (Table df) = Inl KeyError"
      unfolding filtered_df_def stmt_Table(1) and_then_simps
      unfolding b' and_then_simps after_country_NoColumns ..
    with True show ?thesis by simp
  next
    case False
    then have b': "(if countries sel \<noteq> [] then
          and_then (stmt_notna country (Table ?t1)) (stmt_any_in country (countries sel))
        else Inr (Table ?t1)) = Inr (Table ?t2)"
      using b by simp
    have "filtered_df sel (Table df) =
      (if genres sel \<noteq> [] \<and> select_notna listed_in ?t2 = [] then Inl KeyError
       else Inr (Table (filter (keeps sel) df)))"
      unfolding filtered_df_def stmt_Table(1) and_then_simps
      unfolding b' and_then_simps after_country_Table filter_chain_keeps ..
    with False show ?thesis by simp
  qed
  then show ?thesis by (simp add: loses_columns_def)
qed


subsection \<open>The store\<close>


lemma grown_refl: "grown s s"
  by (simp add: grown_def)

lemma grown_trans: "grown s s' \<Longrightarrow> grown s' s'' \<Longrightarrow> grown s s''"
  by (auto simp: grown_def)








subsection \<open>Aggregates\<close>


lemma set_unique: "set (unique xs) = set xs"
  by (induction xs rule: unique.induct) auto

lemma distinct_unique: "distinct (unique xs)"
  by (induction xs rule: unique.induct) (auto simp: set_unique)

lemma sum_category_counts: "sum_list (map snd (category_counts xs)) = length xs"
proof -
  have "sum_list (map snd (category_counts xs)) = sum_list (map (count_list xs) (unique xs))"
    by (simp add: category_counts_def comp_def)
  also have "\<dots> = sum (count_list xs) (set (unique xs))"
    by (rule sum_list_distinct_conv_sum_set) (rule distinct_unique)
  also have "\<dots> = length xs"
    by (simp add: set_unique sum_count_set)
  finally show ?thesis .
qed

lemma category_counts_keys: "map fst (category_counts xs) = unique xs"
  by (simp add: category_counts_def comp_def)

lemma category_counts_entry:
  "(k, n) \<in> set (category_counts xs) \<longleftrightarrow> k \<in> set xs \<and> n = count_list xs k"
  by (auto simp: category_counts_def set_unique)

lemma sort_desc_stable_ok: "sorts_descending sort_desc_stable"
  unfolding sorts_descending_def sort_desc_stable_def
proof (intro allI conjI)
  fix xs :: "('a \<times> nat) list"
  show "mset (sort_key (\<lambda>p. - int (snd p)) xs) = mset xs" by simp
  have "sorted (map (\<lambda>p. - int (snd p)) (sort_key (\<lambda>p. - int (snd p)) xs))"
    by (rule sorted_sort_key)
  then show "sorted_wrt (\<lambda>a b. snd b \<le> snd a) (sort_key (\<lambda>p. - int (snd p)) xs)"
    by (simp add: sorted_map)
qed

lemma count_list_country_tokens:
  "count_list (country_tokens df) c =
     (\<Sum>s\<leftarrow>dropna (map country df). count_list (split_comma_space [] s) c)"
  by (simp add: country_tokens_def count_list_concat comp_def)

lemma value_counts_props:
  assumes "sorts_descending srt"
  shows "mset (value_counts srt xs) = mset (category_counts xs)"
    and "sorted_wrt (\<lambda>a b. snd b \<le> snd a) (value_counts srt xs)"
    and "distinct (map fst (value_counts srt xs))"
    and "length (value_counts srt xs) = card (set xs)"
proof -
  from assms show m: "mset (value_counts srt xs) = mset (category_counts xs)"
    and "sorted_wrt (\<lambda>a b. snd b \<le> snd a) (value_counts srt xs)"
    by (simp_all add: sorts_descending_def value_counts_def)
  from m have "mset (map fst (value_counts srt xs)) = mset (unique xs)"
    by (simp flip: category_counts_keys)
  then show "distinct (map fst (value_counts srt xs))"
    using distinct_unique mset_eq_imp_distinct_iff by blast
  from m have "length (value_counts srt xs) = length (category_counts xs)"
    by (rule mset_eq_length)
  also have "\<dots> = length (unique xs)" by (simp add: category_counts_def)
  also have "\<dots> = card (set xs)"
    using distinct_card [OF distinct_unique, of xs] by (simp add: set_unique)
  finally show "length (value_counts srt xs) = card (set xs)" .
qed

lemma value_counts_stable_ties:
  "filter (\<lambda>p. snd p = n) (value_counts sort_desc_stable xs) =
   filter (\<lambda>p. snd p = n) (category_counts xs)"
proof -
  have "filter (\<lambda>p. - int (snd p) = - int n)
          (sort_key (\<lambda>p. - int (snd p)) (category_counts xs)) =
        filter (\<lambda>p. - int (snd p) = - int n) (category_counts xs)"
    by (rule sort_key_stable)
  then show ?thesis
    by (simp add: value_counts_def sort_desc_stable_def)
qed


text \<open>
  Lines 36 to 45 return when no token filter meets a frame without rows, as when neither a
  country nor a genre is chosen, or when some row passes every filter.
\<close>

lemma filtered_df_returns:
  "\<not> loses_columns sel df \<Longrightarrow>
     filtered_df sel (Table df) = Inr (Table (filter (keeps sel) df))"
  "countries sel = [] \<Longrightarrow> genres sel = [] \<Longrightarrow> \<not> loses_columns sel df"
  "filter (keeps sel) df \<noteq> [] \<Longrightarrow> \<not> loses_columns sel df"
proof -
  show "\<not> loses_columns sel df \<Longrightarrow>
     filtered_df sel (Table df) = Inr (Table (filter (keeps sel) df))"
    by (simp add: filtered_df_outcome)
  show "countries sel = [] \<Longrightarrow> genres sel = [] \<Longrightarrow> \<not> loses_columns sel df"
    by (simp add: loses_columns_def)
  assume "filter (keeps sel) df \<noteq> []"
  then obtain r where r: "r \<in> set df" "keeps sel r"
    by (auto simp: filter_empty_conv)
  show "\<not> loses_columns sel df"
  proof
    assume "loses_columns sel df"
    then consider
      "countries sel \<noteq> []"
        "filter (\<lambda>r. country r \<noteq> None) (filter (\<lambda>r. type r \<in> set (types sel)) df) = []"
      | "genres sel \<noteq> []"
        "filter (\<lambda>r. listed_in r \<noteq> None)
           (filter (\<lambda>r. countries sel = [] \<or> token_match (countries sel) (country r))
              (filter (\<lambda>r. type r \<in> set (types sel)) df)) = []"
      by (auto simp: loses_columns_def select_notna_eq type_filter_eq)
    then show False
    proof cases
      case 1
      with r show False
        by (auto simp: keeps_def token_match_def filter_empty_conv split: option.splits)
    next
      case 2
      with r show False
        by (auto simp: keeps_def token_match_def filter_empty_conv split: option.splits)
    qed
  qed
qed

text \<open>
  The rows of the frame lines 37 to 39 leave of a table are the rows \<open>country_filter\<close>
  gives, and likewise for the genres.
\<close>

lemma token_statements_rows:
  "\<exists>fr. (if toks \<noteq> [] then and_then (stmt_notna col (Table t)) (stmt_any_in col toks)
          else Inr (Table t)) = Inr fr
      \<and> (if toks \<noteq> [] then select_any_in col toks (select_notna col t) else Inr t) =
          Inr (rows_of fr)"
proof (cases "toks \<noteq> [] \<and> select_notna col t = []")
  case True
  then show ?thesis
    by (simp add: stmt_Table and_then_simps token_statements select_any_in_def
        getitem_mask_def)
next
  case False
  then show ?thesis
    using token_filter_eq [of col toks t]
    by (auto simp: stmt_Table and_then_simps token_statements)
qed

lemma country_filter_statements:
  "\<exists>fr. (if cs \<noteq> [] then and_then (stmt_notna country (Table t)) (stmt_any_in country cs)
          else Inr (Table t)) = Inr fr
      \<and> country_filter cs t = Inr (rows_of fr)"
  using token_statements_rows [of cs country t] by (simp add: country_filter_def)

lemma genre_filter_statements:
  "\<exists>fr. (if gs \<noteq> [] then and_then (stmt_notna listed_in (Table t)) (stmt_any_in listed_in gs)
          else Inr (Table t)) = Inr fr
      \<and> genre_filter gs t = Inr (rows_of fr)"
  using token_statements_rows [of gs listed_in t] by (simp add: genre_filter_def)

text \<open>The scenario with the years 2016 to 2021: the show is kept, the movie of 2015 is not.\<close>

lemma filtered_df_show_only:
  "filtered_df (india_selection (2016, 2021)) (Table scenario_table) =
     Inr (Table [tv_show (Some (str ''India'')) 2019 (Some (str ''TV-MA''))])"
  by (simp add: filtered_df_outcome loses_columns_def keeps_def india_selection_def
      scenario_table_def movie_def tv_show_def token_match_def type_filter_eq select_notna_eq
      str_def)

section \<open>The claims\<close>

subsection \<open>Loader\<close>

text \<open>
  C1. Deriving the two fields from \<^verbatim>\<open>duration\<close> is claimed never to raise, giving two
  missing fields where the duration has no digit run. The lambda guards the missing cell and
  the absent token, not the absent digit: on the duration \<^verbatim>\<open>a few min\<close> the search finds
  nothing, \<^verbatim>\<open>.group()\<close> raises AttributeError and \<^verbatim>\<open>load_data\<close> returns no table,
  whatever the libraries are.
\<close>

theorem load_data_digitless_minutes_raises:
  "load_data lib [csv_with_duration (Some (str ''a few min''))] = Inl AttributeError"
  by (simp add: load_data_def derived_column_def derive_number_def csv_with_duration_def
      re_search_digits_def is_digit_def digit_value_def str_def)

text \<open>
  C3, as stated: the two derived fields are never both present. A duration that holds both
  unit tokens fills both, each lambda testing its own token only.
\<close>

theorem load_data_both_units_counterexample:
  "load_data example_library [csv_with_duration (Some (str ''1 Season 30 min''))] =
     Inr [\<lparr> title = str ''t'', type = str ''Movie'', country = None, date_added = None,
            release_year = 2015, rating = None, duration = Some (str ''1 Season 30 min''),
            listed_in = None, duration_minutes = Some 1, num_seasons = Some 1 \<rparr>]"
  by (simp add: load_data_def derived_column_def derive_number_def example_library_def
      csv_with_duration_def re_search_digits_def is_digit_def digit_value_def py_int_def
      int_max_str_digits_def with_derived_def str_def)

text \<open>
  C3, amended. For every row of a table the loader returned: both derived fields are present
  exactly when the duration holds both unit tokens, so they are not both present on a
  duration that lacks one of them; exactly one is present when the duration holds exactly
  one of \<^verbatim>\<open>min\<close> and \<^verbatim>\<open>Season\<close>; both are missing when the duration is missing or holds
  neither token. This holds whatever dtype the derived columns are stored with.
\<close>

theorem load_data_duration_fields:
  assumes "keeps_missing (to_column lib)" and "load_data lib csv = Inr tbl" and "r \<in> set tbl"
  shows "((duration_minutes r \<noteq> None \<and> num_seasons r \<noteq> None) \<longleftrightarrow>
            (\<exists>s. duration r = Some s \<and> py_in (str ''min'') s \<and> py_in (str ''Season'') s))
       \<and> ((\<exists>s. duration r = Some s \<and> (py_in (str ''min'') s \<noteq> py_in (str ''Season'') s)) \<longrightarrow>
            (duration_minutes r \<noteq> None) \<noteq> (num_seasons r \<noteq> None))
       \<and> ((duration r = None
             \<or> (\<exists>s. duration r = Some s \<and> \<not> py_in (str ''min'') s \<and> \<not> py_in (str ''Season'') s)) \<longrightarrow>
            duration_minutes r = None \<and> num_seasons r = None)"
proof -
  from load_data_rows [OF assms] obtain m s where
    m: "derive_number (decimal_value lib) (str ''min'') (duration r) = Inr m" and
    mn: "(duration_minutes r = None) = (m = None)" and
    s: "derive_number (decimal_value lib) (str ''Season'') (duration r) = Inr s" and
    sn: "(num_seasons r = None) = (s = None)" by (elim exE conjE)
  from derive_number_None_iff [OF m] mn
  have mi: "(duration_minutes r \<noteq> None) = (\<exists>t. duration r = Some t \<and> py_in (str ''min'') t)"
    by simp
  from derive_number_None_iff [OF s] sn
  have si: "(num_seasons r \<noteq> None) = (\<exists>t. duration r = Some t \<and> py_in (str ''Season'') t)"
    by simp
  from mi si show ?thesis by auto
qed

text \<open>
  The theorem at the three durations of the scenarios: \<^verbatim>\<open>90 min\<close> gives 90 minutes and no
  seasons, \<^verbatim>\<open>3 Seasons\<close> gives 3 seasons and no minutes, a missing duration gives neither.
\<close>

theorem load_data_duration_fields_witness:
  "keeps_missing (to_column example_library)
 \<and> load_data example_library
     [csv_with_duration (Some (str ''90 min'')), csv_with_duration (Some (str ''3 Seasons'')),
      csv_with_duration None] =
   Inr [with_derived (to_datetime example_library) (csv_with_duration (Some (str ''90 min''))) (Some 90) None,
        with_derived (to_datetime example_library) (csv_with_duration (Some (str ''3 Seasons''))) None (Some 3),
        with_derived (to_datetime example_library) (csv_with_duration None) None None]
 \<and> (duration_minutes (with_derived (to_datetime example_library)
          (csv_with_duration (Some (str ''3 Seasons''))) None (Some (3::int))) \<noteq> None)
     \<noteq> (num_seasons (with_derived (to_datetime example_library)
          (csv_with_duration (Some (str ''3 Seasons''))) None (Some (3::int))) \<noteq> None)"
proof -
  let ?csv = "[csv_with_duration (Some (str ''90 min'')), csv_with_duration (Some (str ''3 Seasons'')),
      csv_with_duration None]"
  let ?r = "with_derived (to_datetime example_library)
      (csv_with_duration (Some (str ''3 Seasons''))) None (Some (3::int))"
  let ?tbl = "[with_derived (to_datetime example_library) (csv_with_duration (Some (str ''90 min''))) (Some 90) None,
      ?r, with_derived (to_datetime example_library) (csv_with_duration None) None None]"
  have l: "load_data example_library ?csv = Inr ?tbl"
    by (simp add: load_data_def derived_column_def derive_number_def example_library_def
        csv_with_duration_def re_search_digits_def is_digit_def digit_value_def py_int_def
        int_max_str_digits_def str_def)
  have r: "?r \<in> set ?tbl" by simp
  have d: "\<exists>s. duration ?r = Some s \<and> (py_in (str ''min'') s \<noteq> py_in (str ''Season'') s)"
    by (simp add: with_derived_def csv_with_duration_def str_def)
  from load_data_duration_fields [OF keeps_missing_example l r] d l keeps_missing_example
  show ?thesis by blast
qed

subsection \<open>Filter statements\<close>

text \<open>
  C2, as stated: with no type chosen the type filter keeps all rows. Line 36 is a plain
  membership test with no guard for the empty list, and nothing is a member of the empty
  list: the scenario's two rows are both dropped.
\<close>

theorem type_filter_empty_selection_counterexample:
  "type_filter [] scenario_table = [] \<and> scenario_table \<noteq> []"
  by (simp add: type_filter_def isin_def getitem_mask_def scenario_table_def)

text \<open>
  C2, amended. The type filter keeps the rows whose type is one of the chosen values: no row
  when nothing is chosen, every row when the chosen values are all the types of the table,
  which is what the widget starts with (\<^verbatim>\<open>default=df['type'].unique()\<close>).
\<close>

theorem type_filter_membership:
  "type_filter [] df = []
 \<and> type_filter (unique (map type df)) df = df
 \<and> type_filter ts df = filter (\<lambda>r. type r \<in> set ts) df"
  by (simp add: type_filter_eq set_unique)

text \<open>
  C4. With at least one country chosen, the country filter keeps the rows whose country
  is present and has one of the chosen tokens as a contiguous part (\<open>sublist\<close>), in the
  order of the table.
\<close>

theorem country_filter_substring:
  assumes "cs \<noteq> []"
  shows "country_filter cs df =
     Inr (filter (\<lambda>r. \<exists>s. country r = Some s \<and> (\<exists>c\<in>set cs. sublist c s)) df)"
proof -
  have "(\<lambda>r. cs = [] \<or> token_match cs (country r)) =
      (\<lambda>r::('a, 'b) row. \<exists>s. country r = Some s \<and> (\<exists>c\<in>set cs. sublist c s))"
    using assms
    by (auto simp: token_match_def list_ex_iff py_in_iff sublist_def fun_eq_iff
        split: option.splits)
  then show ?thesis by (simp add: country_filter_eq)
qed

text \<open>
  The theorem with \<^verbatim>\<open>Niger\<close> chosen: the row of Nigeria is kept though Niger is not one
  of its comma-separated countries, the row without a country is dropped.
\<close>

theorem country_filter_substring_witness:
  "[str ''Niger''] \<noteq> []
 \<and> country_filter [str ''Niger'']
     [movie (Some (str ''Nigeria'')) 2015 None, movie None 2015 None, movie (Some (str ''India, Niger'')) 2015 None,
      movie (Some (str ''India'')) 2015 None] =
   Inr [movie (Some (str ''Nigeria'')) 2015 None, movie (Some (str ''India, Niger'')) 2015 None]
 \<and> country_filter [str ''Niger'']
     [movie (Some (str ''Nigeria'')) 2015 None, movie None 2015 None, movie (Some (str ''India, Niger'')) 2015 None,
      movie (Some (str ''India'')) 2015 None] =
   Inr (filter (\<lambda>r. \<exists>s. country r = Some s \<and> (\<exists>c\<in>set [str ''Niger'']. sublist c s))
     [movie (Some (str ''Nigeria'')) 2015 None, movie None 2015 None, movie (Some (str ''India, Niger'')) 2015 None,
      movie (Some (str ''India'')) 2015 None])"
proof -
  let ?df = "[movie (Some (str ''Nigeria'')) 2015 None, movie None 2015 None,
      movie (Some (str ''India, Niger'')) 2015 None, movie (Some (str ''India'')) 2015 None]"
  have n: "[str ''Niger''] \<noteq> []" by simp
  have e: "country_filter [str ''Niger''] ?df =
      Inr [movie (Some (str ''Nigeria'')) 2015 None, movie (Some (str ''India, Niger'')) 2015 None]"
    by (simp add: country_filter_def select_any_in_def select_notna_def notna_def
        getitem_mask_def movie_def str_def)
  from n e country_filter_substring [OF n, of ?df] show ?thesis by simp
qed

text \<open>
  C5. Filtering the filtered table again with the same selection is claimed to return the
  same rows. With India chosen and the years 1990 to 2000 the scenario's table is filtered
  to a table without rows; filtered again, that table loses its columns in line 39 and
  line 45 raises KeyError.
\<close>

theorem filtered_df_second_run_raises:
  "filtered_df (india_selection (1990, 2000)) (Table scenario_table) = Inr (Table [])
 \<and> filtered_df (india_selection (1990, 2000)) (Table ([] :: (unit, int) row list)) =
     Inl KeyError"
  by (simp add: filtered_df_outcome loses_columns_def keeps_def india_selection_def
      scenario_table_def movie_def tv_show_def token_match_def type_filter_eq select_notna_eq
      str_def)

text \<open>
  C7. With no rating chosen the rating filter returns its table as it is; with ratings
  chosen it keeps the rows whose rating is present and equal to one of them.
\<close>

theorem rating_filter_membership:
  "rating_filter [] df = df
 \<and> (rs \<noteq> [] \<longrightarrow> rating_filter rs df = filter (\<lambda>r. \<exists>x\<in>set rs. rating r = Some x) df)"
  by (auto simp: rating_filter_eq intro!: filter_cong)

text \<open>
  The theorem with \<^verbatim>\<open>PG\<close> chosen: the row rated \<^verbatim>\<open>PG-13\<close> is dropped, as is the row
  without a rating.
\<close>

theorem rating_filter_membership_witness:
  "[str ''PG''] \<noteq> []
 \<and> rating_filter [str ''PG'']
     [movie None 2015 (Some (str ''PG-13'')), movie None 2015 (Some (str ''PG'')), movie None 2015 None] =
   [movie None 2015 (Some (str ''PG''))]
 \<and> rating_filter []
     [movie None 2015 (Some (str ''PG-13'')), movie None 2015 (Some (str ''PG'')), movie None 2015 None] =
   [movie None 2015 (Some (str ''PG-13'')), movie None 2015 (Some (str ''PG'')), movie None 2015 None]"
  using rating_filter_membership [of "[movie None 2015 (Some (str ''PG-13'')),
    movie None 2015 (Some (str ''PG'')), movie None 2015 None]" "[str ''PG'']"]
  by (simp add: movie_def str_def)



text \<open>
  C10. A table that lines 36 to 45 return has its columns and is a subsequence of the
  loaded table: its rows are rows of the input, in the order they have there.
\<close>

theorem filtered_df_subsequence:
  assumes "filtered_df sel (Table df) = Inr fr"
  shows "\<exists>out. fr = Table out \<and> subseq out df \<and> set out \<subseteq> set df"
  using assms by (auto simp: filtered_df_outcome split: if_splits)

text \<open>The theorem at the scenario with the years 2016 to 2021.\<close>

theorem filtered_df_subsequence_witness:
  "filtered_df (india_selection (2016, 2021)) (Table scenario_table) =
     Inr (Table [tv_show (Some (str ''India'')) 2019 (Some (str ''TV-MA''))])
 \<and> subseq [tv_show (Some (str ''India'')) 2019 (Some (str ''TV-MA''))] scenario_table
 \<and> set [tv_show (Some (str ''India'')) 2019 (Some (str ''TV-MA''))] \<subseteq> set scenario_table"
  using filtered_df_subsequence [OF filtered_df_show_only] filtered_df_show_only by simp

subsection \<open>Aggregates\<close>

text \<open>
  C8. The counts the type chart draws, one per type, add up to the number of rows of the
  table charted, for every table and so for every filtered one.
\<close>

theorem countplot_type_total:
  "sum_list (map snd (countplot_type df)) = number_of_titles df"
  by (simp add: countplot_type_def number_of_titles_def sum_category_counts)

text \<open>
  C6, as stated: entries of equal count come in the order the countries were first seen.
  Line 71 names no sort kind and adds no second key, and the quicksort it then gets
  exchanges equal counts once there are more than 17 of them: of twenty movies, each of a
  country of its own, the ten countries listed are not the first ten seen.
\<close>

theorem top_countries_tie_order_counterexample:
  "country_tokens twenty_movies = twenty_countries
 \<and> distinct twenty_countries
 \<and> top_countries sort_values_quicksort twenty_movies \<noteq>
     zip (take 10 twenty_countries) (replicate 10 1)"
  by code_simp

text \<open>
  C6, amended. Whatever descending sort \<^verbatim>\<open>value_counts\<close> uses, the top countries are at
  most ten (ten, or all the distinct tokens when there are fewer), in descending order of
  count, with no country listed twice; the count of a listed country is the number of times
  it occurs among the tokens of the rows' country strings, every row with a country
  contributing each of its tokens; and no country left out has a higher count than a listed
  one. The order among equal counts is not fixed.
\<close>

theorem top_countries_spec:
  assumes "sorts_descending srt"
  shows "length (top_countries srt df) = min 10 (card (set (country_tokens df)))
     \<and> sorted_wrt (\<lambda>a b. snd b \<le> snd a) (top_countries srt df)
     \<and> distinct (map fst (top_countries srt df))
     \<and> (\<forall>(c, n)\<in>set (top_countries srt df).
          c \<in> set (country_tokens df)
        \<and> n = (\<Sum>s\<leftarrow>dropna (map country df). count_list (split_comma_space [] s) c))
     \<and> (\<forall>c\<in>set (country_tokens df). c \<notin> fst ` set (top_countries srt df) \<longrightarrow>
          (\<forall>(c', n)\<in>set (top_countries srt df). count_list (country_tokens df) c \<le> n))"
proof -
  let ?toks = "country_tokens df"
  let ?vc = "value_counts srt ?toks"
  note vc = value_counts_props [OF assms, of ?toks]
  have top: "top_countries srt df = take 10 ?vc" by (simp add: top_countries_def)
  have mem: "(c, n) \<in> set ?vc \<longleftrightarrow> c \<in> set ?toks \<and> n = count_list ?toks c" for c n
    using mset_eq_setD [OF vc(1)] by (simp add: category_counts_entry)
  have 1: "length (top_countries srt df) = min 10 (card (set ?toks))"
    using vc(4) by (simp add: top min.commute)
  have 2: "sorted_wrt (\<lambda>a b. snd b \<le> snd a) (top_countries srt df)"
    using vc(2) by (simp add: top)
  have 3: "distinct (map fst (top_countries srt df))"
    using vc(3) by (simp add: top flip: take_map)
  have 4: "\<forall>(c, n)\<in>set (top_countries srt df).
          c \<in> set ?toks
        \<and> n = (\<Sum>s\<leftarrow>dropna (map country df). count_list (split_comma_space [] s) c)"
  proof (clarify)
    fix c n assume "(c, n) \<in> set (top_countries srt df)"
    then have "(c, n) \<in> set ?vc" unfolding top by (rule in_set_takeD)
    then show "c \<in> set ?toks
        \<and> n = (\<Sum>s\<leftarrow>dropna (map country df). count_list (split_comma_space [] s) c)"
      by (simp add: mem count_list_country_tokens)
  qed
  have 5: "\<forall>c\<in>set ?toks. c \<notin> fst ` set (top_countries srt df) \<longrightarrow>
          (\<forall>(c', n)\<in>set (top_countries srt df). count_list ?toks c \<le> n)"
  proof (intro ballI impI, clarify)
    fix c c' n
    assume c: "c \<in> set ?toks" and out: "c \<notin> fst ` set (top_countries srt df)"
      and inn: "(c', n) \<in> set (top_countries srt df)"
    from c have "(c, count_list ?toks c) \<in> set ?vc" by (simp add: mem)
    then have "(c, count_list ?toks c) \<in> set (take 10 ?vc) \<union> set (drop 10 ?vc)"
      by (simp flip: set_append)
    with out have d: "(c, count_list ?toks c) \<in> set (drop 10 ?vc)"
      by (force simp: top)
    from vc(2) have "sorted_wrt (\<lambda>a b. snd b \<le> snd a) (take 10 ?vc @ drop 10 ?vc)" by simp
    then have "\<forall>x\<in>set (take 10 ?vc). \<forall>y\<in>set (drop 10 ?vc). snd y \<le> snd x"
      unfolding sorted_wrt_append by blast
    with d inn show "count_list ?toks c \<le> n" by (force simp: top)
  qed
  from 1 2 3 4 5 show ?thesis by blast
qed

text \<open>
  The theorem at the scenario: the movie of the United States and India counts once for
  each, the show of India once more for India.
\<close>

theorem top_countries_spec_witness:
  "sorts_descending (sort_desc_stable :: (pystr \<times> nat) list \<Rightarrow> (pystr \<times> nat) list)
 \<and> top_countries sort_desc_stable scenario_table = [(str ''India'', 2), (str ''United States'', 1)]
 \<and> sorted_wrt (\<lambda>a b. snd b \<le> snd a) (top_countries sort_desc_stable scenario_table)"
proof -
  have e: "top_countries sort_desc_stable scenario_table = [(str ''India'', 2), (str ''United States'', 1)]"
    by (simp add: top_countries_def value_counts_def category_counts_def country_tokens_def
        scenario_table_def movie_def tv_show_def sort_desc_stable_def str_def)
  from top_countries_spec [OF sort_desc_stable_ok, of scenario_table] e sort_desc_stable_ok
  show ?thesis by blast
qed

end
